theory Spec2Isabelle
  imports Complex_Main "HOL-Library.Multiset" "HOL-Library.Log_Nat"
begin

section \<open>The options payoff module (fastbt/options/payoff.py)\<close>

text \<open>
  Numbers. The Python fields typed \<open>int\<close> (\<open>quantity\<close>, \<open>lot_size\<close>, the value of a
  \<open>Side\<close>) are unbounded integers and are modelled as \<open>int\<close>. The fields typed
  \<open>float\<close> or \<open>Union[int, float]\<close> (\<open>strike\<close>, \<open>premium\<close>, \<open>spot\<close>) are modelled as
  \<open>real\<close>, with Python's implicit promotion of an \<open>int\<close> operand written \<open>of_int\<close>.
  The arithmetic of a single contract (\<open>value\<close>, \<open>net_value\<close>, the scaling by the lot
  size) is computed exactly: those theorems are about which expression the code
  evaluates, at which arguments. The accumulation in \<open>payoff\<close> is different, because
  there the order of the contracts decides which intermediate results are rounded: the
  additions of \<open>sum\<close> round to the nearest double, as \<open>round_double\<close> below says.
  Infinities and NaN are not values of the model.

  The base class is pydantic's (the 1.x interface: \<open>root_validator\<close> without
  arguments). Of its field coercions the model writes out the one that changes a value
  of the declared type: \<open>strike: Union[int, float]\<close> is validated as \<open>int\<close> first, and
  that succeeds on every finite float by truncation. The other fields are taken with
  values of their declared types, which validation leaves as they are.
\<close>

subsection \<open>Enumerations\<close>

datatype Opt = CALL | PUT | FUTURE | HOLDING

datatype Side = BUY | SELL

text \<open>\<open>Side.BUY.value\<close> is 1 and \<open>Side.SELL.value\<close> is -1.\<close>

fun Side_value :: "Side \<Rightarrow> int" where
  "Side_value BUY = 1"
| "Side_value SELL = - 1"

subsection \<open>OptionContract\<close>

record OptionContract =
  strike :: real
  option :: Opt
  side :: Side
  premium :: real
  quantity :: int

text \<open>
  The only exception the module raises itself: the \<open>ValueError\<close> of \<open>premium_check\<close>,
  which pydantic reports as a \<open>ValidationError\<close> of the model under construction.
\<close>

datatype error = ValidationError

text \<open>
  \<open>premium_check\<close> is the root validator; it sees the field values and either raises
  or returns them unchanged.
\<close>

definition premium_check :: "OptionContract \<Rightarrow> error + OptionContract" where
  "premium_check values =
     (if option values = CALL \<or> option values = PUT then
        (if premium values = 0 then Inl ValidationError else Inr values)
      else Inr values)"

text \<open>
  A keyword argument with a default is an \<open>option\<close>: \<open>None\<close> when the caller leaves it
  out.
\<close>

fun or_default :: "'a option \<Rightarrow> 'a \<Rightarrow> 'a" where
  "or_default None d = d"
| "or_default (Some v) d = v"

text \<open>Python's \<open>int(x)\<close> of a float: truncation towards zero.\<close>

definition py_int :: "real \<Rightarrow> int" where
  "py_int x = (if 0 \<le> x then \<lfloor>x\<rfloor> else \<lceil>x\<rceil>)"

text \<open>
  The constructor \<open>OptionContract(strike=, option=, side=, premium=0.0, quantity=1)\<close>:
  the fields are validated and stored, the strike as the integer \<open>int(strike)\<close> that the
  first member of its \<open>Union[int, float]\<close> accepts, and the root validator runs over
  them.
\<close>

definition new_OptionContract ::
  "real \<Rightarrow> Opt \<Rightarrow> Side \<Rightarrow> real option \<Rightarrow> int option \<Rightarrow> error + OptionContract" where
  "new_OptionContract k ty sd p q =
     premium_check \<lparr>strike = of_int (py_int k), option = ty, side = sd,
                    premium = or_default p 0, quantity = or_default q 1\<rparr>"

text \<open>\<open>OptionContract.value\<close>: the gross value of one unit at expiry.\<close>

definition value_c :: "OptionContract \<Rightarrow> real \<Rightarrow> real" where
  "value_c self spot =
     (if option self = CALL then max (spot - strike self) 0
      else if option self = PUT then max (strike self - spot) 0
      else spot - strike self)"

text \<open>\<open>OptionContract.net_value\<close>.\<close>

definition net_value :: "OptionContract \<Rightarrow> real \<Rightarrow> real" where
  "net_value self spot =
     (let val = value_c self spot in
      if option self = CALL \<or> option self = PUT then
        (val - premium self) * of_int (Side_value (side self)) * of_int (quantity self)
      else val * of_int (Side_value (side self)) * of_int (quantity self))"

subsection \<open>OptionPayoff\<close>

record OptionPayoff =
  spot :: real
  lot_size :: int
  priv_options :: "OptionContract list"

text \<open>A fresh book: \<open>OptionPayoff(spot=0.0, lot_size=1)\<close>, with no contracts.\<close>

definition new_OptionPayoff :: "real option \<Rightarrow> int option \<Rightarrow> OptionPayoff" where
  "new_OptionPayoff s l =
     \<lparr>spot = or_default s 0, lot_size = or_default l 1, priv_options = []\<rparr>"

text \<open>\<open>add\<close> appends to the private list.\<close>

definition add :: "OptionPayoff \<Rightarrow> OptionContract \<Rightarrow> OptionPayoff" where
  "add self contract = self\<lparr>priv_options := priv_options self @ [contract]\<rparr>"

text \<open>
  \<open>add_contract\<close> mutates the book and may raise. The model returns the book as it is
  after the call together with the outcome: \<open>Some e\<close> when the call raised \<open>e\<close>, \<open>None\<close>
  when it returned. The contract is constructed first and the append comes after it, so
  a raising constructor leaves before the list is touched.
\<close>

definition add_contract ::
  "OptionPayoff \<Rightarrow> real \<Rightarrow> Opt option \<Rightarrow> Side option \<Rightarrow> real option \<Rightarrow> int option
     \<Rightarrow> error option \<times> OptionPayoff" where
  "add_contract self k opt_type sd p qty =
     (case new_OptionContract k (or_default opt_type CALL) (or_default sd BUY)
             (Some (or_default p 0)) (Some (or_default qty 1)) of
        Inl e \<Rightarrow> (Some e, self)
      | Inr contract \<Rightarrow> (None, self\<lparr>priv_options := priv_options self @ [contract]\<rparr>))"

text \<open>The property \<open>options\<close> returns the private list.\<close>

definition options :: "OptionPayoff \<Rightarrow> OptionContract list" where
  "options self = priv_options self"

text \<open>
  A \<open>Counter\<close> is a dictionary whose lookup of a missing key gives 0 and stores nothing.
\<close>

type_synonym Counter = "Opt \<rightharpoonup> int"

definition lookup :: "Counter \<Rightarrow> Opt \<Rightarrow> int" where
  "lookup positions k = (case positions k of None \<Rightarrow> 0 | Some v \<Rightarrow> v)"

text \<open>
  One turn of the loop of \<open>net_positions\<close>: \<open>positions[contract.option] += quantity\<close>.
\<close>

definition net_positions_step :: "int \<Rightarrow> Counter \<Rightarrow> OptionContract \<Rightarrow> Counter" where
  "net_positions_step lot positions contract =
     (let qty = quantity contract * Side_value (side contract) * lot in
      positions(option contract \<mapsto> lookup positions (option contract) + qty))"

definition net_positions :: "OptionPayoff \<Rightarrow> Counter" where
  "net_positions self = foldl (net_positions_step (lot_size self)) Map.empty (options self)"

definition has_naked_positions :: "OptionPayoff \<Rightarrow> bool" where
  "has_naked_positions self =
     (let positions = net_positions self in
      if lookup positions CALL < 0 then True
      else if lookup positions PUT < 0 then True
      else False)"

definition clear :: "OptionPayoff \<Rightarrow> OptionPayoff" where
  "clear self = self\<lparr>priv_options := []\<rparr>"

text \<open>
  Python's \<open>not spot\<close> for an \<open>Optional[float]\<close>: true for \<open>None\<close> and for a zero.
\<close>

fun not_py :: "real option \<Rightarrow> bool" where
  "not_py None = True"
| "not_py (Some x) = (x = 0)"

text \<open>
  Double precision. A nonzero real \<open>x\<close> with \<open>2 ^ e \<le> \<bar>x\<bar> < 2 ^ (e + 1)\<close> has the
  binary exponent \<open>e\<close>; the doubles around it are the multiples of \<open>2 ^ (e - 52)\<close>
  (53 significant bits), and below \<open>2 ^ - 1022\<close> the spacing stays that of the smallest
  normal numbers. \<open>round_double\<close> takes the nearest such multiple, and of two equally
  near ones the one with the even significand. A result beyond the largest double would
  be an infinity, which the model does not have.
\<close>

definition exponent :: "real \<Rightarrow> int" where
  "exponent x =
     (if 1 \<le> \<bar>x\<bar> then bitlen \<lfloor>\<bar>x\<bar>\<rfloor> - 1 else - bitlen (\<lceil>1 / \<bar>x\<bar>\<rceil> - 1))"

definition ulp :: "real \<Rightarrow> real" where
  "ulp x =
     (let e = max (exponent x) (- 1022) in
      if 52 \<le> e then 2 ^ nat (e - 52) else 1 / 2 ^ nat (52 - e))"

definition round_even :: "real \<Rightarrow> int" where
  "round_even r =
     (let f = \<lfloor>r\<rfloor>; d = r - of_int f in
      if d < 1 / 2 then f
      else if 1 / 2 < d then f + 1
      else if even f then f else f + 1)"

definition round_double :: "real \<Rightarrow> real" where
  "round_double x = (if x = 0 then 0 else of_int (round_even (x / ulp x)) * ulp x)"

text \<open>The addition of two floats: the exact sum, rounded.\<close>

definition fadd :: "real \<Rightarrow> real \<Rightarrow> real" where
  "fadd a b = round_double (a + b)"

text \<open>
  The builtin \<open>sum\<close> over a list of floats: start at 0 and add from the left, one
  rounded addition per element.
\<close>

definition py_sum :: "real list \<Rightarrow> real" where
  "py_sum xs = foldl fadd 0 xs"

text \<open>\<open>payoff(spot=None)\<close>; the debug log line of the empty case has no effect here.\<close>

definition payoff :: "OptionPayoff \<Rightarrow> real option \<Rightarrow> real" where
  "payoff self spot_arg =
     (let spot1 = (if not_py spot_arg then spot self else the spot_arg) in
      if length (options self) = 0 then 0
      else py_sum (map (\<lambda>contract. net_value contract spot1 * of_int (lot_size self))
                       (options self)))"

text \<open>\<open>simulate\<close>: the list comprehension over the prices.\<close>

definition simulate :: "OptionPayoff \<Rightarrow> real list \<Rightarrow> real list" where
  "simulate self spots = map (\<lambda>price. payoff self (Some price)) spots"


text \<open>
  The sentence "\<open>simulate\<close> is equivalent to repeated independent calls to \<open>payoff\<close>",
  written out as such: one call of \<open>payoff\<close> per price, in order, each on the same book.
  It is compared with \<open>simulate\<close> below.
\<close>

fun simulate_spec :: "OptionPayoff \<Rightarrow> real list \<Rightarrow> real list" where
  "simulate_spec self [] = []"
| "simulate_spec self (s # ss) = payoff self (Some s) # simulate_spec self ss"

section \<open>Properties\<close>

subsection \<open>Contracts\<close>

text \<open>
  Claim C2: the net value of a contract, by kind. A call nets
  \<open>(max(s - strike, 0) - premium) * side * quantity\<close>, a put
  \<open>(max(strike - s, 0) - premium) * side * quantity\<close>, a future or a holding
  \<open>(s - strike) * side * quantity\<close> whatever its premium is; the side counts 1 for
  BUY and -1 for SELL.
\<close>

theorem net_value_by_kind:
  "(option c = CALL \<longrightarrow>
      net_value c s
        = (max (s - strike c) 0 - premium c) * of_int (Side_value (side c)) * of_int (quantity c))
 \<and> (option c = PUT \<longrightarrow>
      net_value c s
        = (max (strike c - s) 0 - premium c) * of_int (Side_value (side c)) * of_int (quantity c))
 \<and> (option c = FUTURE \<or> option c = HOLDING \<longrightarrow>
      net_value c s = (s - strike c) * of_int (Side_value (side c)) * of_int (quantity c)
      \<and> net_value (c\<lparr>premium := p\<rparr>) s = net_value c s)
 \<and> Side_value BUY = 1 \<and> Side_value SELL = - 1"
  by (simp add: net_value_def value_c_def)

theorem net_value_by_kind_witness:
  "net_value \<lparr>strike = 100, option = CALL, side = BUY, premium = 5, quantity = 2\<rparr> 130 = 50
 \<and> net_value \<lparr>strike = 100, option = CALL, side = SELL, premium = 5, quantity = 2\<rparr> 130 = - 50
 \<and> net_value \<lparr>strike = 100, option = PUT, side = BUY, premium = 4, quantity = 1\<rparr> 70 = 26
 \<and> net_value \<lparr>strike = 100, option = FUTURE, side = SELL, premium = 7, quantity = 3\<rparr> 90 = 30
 \<and> net_value \<lparr>strike = 100, option = HOLDING, side = BUY, premium = 7, quantity = 3\<rparr> 90 = - 30"
  using
    net_value_by_kind [of "\<lparr>strike = 100, option = CALL, side = BUY, premium = 5, quantity = 2\<rparr>" 130]
    net_value_by_kind [of "\<lparr>strike = 100, option = CALL, side = SELL, premium = 5, quantity = 2\<rparr>" 130]
    net_value_by_kind [of "\<lparr>strike = 100, option = PUT, side = BUY, premium = 4, quantity = 1\<rparr>" 70]
    net_value_by_kind [of "\<lparr>strike = 100, option = FUTURE, side = SELL, premium = 7, quantity = 3\<rparr>" 90]
    net_value_by_kind [of "\<lparr>strike = 100, option = HOLDING, side = BUY, premium = 7, quantity = 3\<rparr>" 90]
  by simp

text \<open>
  Claim C3: constructing a contract fails with the validation error exactly when the
  kind is CALL or PUT and the premium is 0. In every other case (a nonzero premium of
  either sign, or a future or holding with any premium) it succeeds, whatever the
  strike and the quantity are, and returns the contract with the kind, side, premium
  and quantity as given and the strike truncated to an integer.
\<close>

theorem construction_fails_iff:
  "(new_OptionContract k ty sd p q = Inl ValidationError)
     = ((ty = CALL \<or> ty = PUT) \<and> or_default p 0 = 0)
 \<and> (\<not> ((ty = CALL \<or> ty = PUT) \<and> or_default p 0 = 0) \<longrightarrow>
      new_OptionContract k ty sd p q =
        Inr \<lparr>strike = of_int (py_int k), option = ty, side = sd,
             premium = or_default p 0, quantity = or_default q 1\<rparr>)"
  by (simp add: new_OptionContract_def premium_check_def)

theorem construction_fails_iff_witness:
  "new_OptionContract 100 CALL BUY (Some 0) (Some 1) = Inl ValidationError
 \<and> new_OptionContract 100 PUT SELL None None = Inl ValidationError
 \<and> new_OptionContract (- 100) CALL BUY (Some (- 3)) (Some 0)
      = Inr \<lparr>strike = - 100, option = CALL, side = BUY, premium = - 3, quantity = 0\<rparr>
 \<and> new_OptionContract 100 FUTURE SELL None (Some (- 2))
      = Inr \<lparr>strike = 100, option = FUTURE, side = SELL, premium = 0, quantity = - 2\<rparr>
 \<and> new_OptionContract (201 / 2) HOLDING BUY (Some 9) None
      = Inr \<lparr>strike = 100, option = HOLDING, side = BUY, premium = 9, quantity = 1\<rparr>
 \<and> new_OptionContract (- 201 / 2) PUT SELL (Some (1 / 2)) None
      = Inr \<lparr>strike = - 100, option = PUT, side = SELL, premium = 1 / 2, quantity = 1\<rparr>"
  using construction_fails_iff [of 100 CALL BUY "Some 0" "Some 1"]
    construction_fails_iff [of 100 PUT SELL None None]
    construction_fails_iff [of "- 100" CALL BUY "Some (- 3)" "Some 0"]
    construction_fails_iff [of 100 FUTURE SELL None "Some (- 2)"]
    construction_fails_iff [of "201 / 2" HOLDING BUY "Some 9" None]
    construction_fails_iff [of "- 201 / 2" PUT SELL "Some (1 / 2)" None]
  by (simp add: py_int_def)

subsection \<open>Adding contracts\<close>

text \<open>
  Claim C4: \<open>add_contract\<close> is all or nothing. Either the constructor returns a
  contract and the book afterwards is the book before with exactly that contract
  appended at the end (spot and lot size as they were), or the constructor fails with
  the validation error, the call raises it and the book is the book before.
\<close>

theorem add_contract_atomic:
  "(\<exists>c. new_OptionContract k (or_default ty CALL) (or_default sd BUY)
            (Some (or_default p 0)) (Some (or_default q 1)) = Inr c
        \<and> add_contract b k ty sd p q = (None, b\<lparr>priv_options := priv_options b @ [c]\<rparr>)
        \<and> options (snd (add_contract b k ty sd p q)) = options b @ [c]
        \<and> spot (snd (add_contract b k ty sd p q)) = spot b
        \<and> lot_size (snd (add_contract b k ty sd p q)) = lot_size b)
 \<or> (new_OptionContract k (or_default ty CALL) (or_default sd BUY)
            (Some (or_default p 0)) (Some (or_default q 1)) = Inl ValidationError
        \<and> add_contract b k ty sd p q = (Some ValidationError, b))"
proof (cases "new_OptionContract k (or_default ty CALL) (or_default sd BUY)
            (Some (or_default p 0)) (Some (or_default q 1))")
  case (Inl e)
  moreover have "e = ValidationError" by (cases e) simp
  ultimately show ?thesis by (simp add: add_contract_def)
next
  case (Inr c)
  then show ?thesis by (simp add: add_contract_def options_def)
qed

theorem add_contract_atomic_witness:
  "add_contract
      \<lparr>spot = 100, lot_size = 5, priv_options =
         [\<lparr>strike = 90, option = PUT, side = BUY, premium = 4, quantity = 1\<rparr>]\<rparr>
      110 None (Some SELL) (Some 3) None
    = (None, \<lparr>spot = 100, lot_size = 5, priv_options =
         [\<lparr>strike = 90, option = PUT, side = BUY, premium = 4, quantity = 1\<rparr>,
          \<lparr>strike = 110, option = CALL, side = SELL, premium = 3, quantity = 1\<rparr>]\<rparr>)
 \<and> add_contract
      \<lparr>spot = 100, lot_size = 5, priv_options =
         [\<lparr>strike = 90, option = PUT, side = BUY, premium = 4, quantity = 1\<rparr>]\<rparr>
      110 None None None None
    = (Some ValidationError, \<lparr>spot = 100, lot_size = 5, priv_options =
         [\<lparr>strike = 90, option = PUT, side = BUY, premium = 4, quantity = 1\<rparr>]\<rparr>)"
  using add_contract_atomic [of 110 None "Some SELL" "Some 3" None
      "\<lparr>spot = 100, lot_size = 5, priv_options =
         [\<lparr>strike = 90, option = PUT, side = BUY, premium = 4, quantity = 1\<rparr>]\<rparr>"]
    add_contract_atomic [of 110 None None None None
      "\<lparr>spot = 100, lot_size = 5, priv_options =
         [\<lparr>strike = 90, option = PUT, side = BUY, premium = 4, quantity = 1\<rparr>]\<rparr>"]
  by (simp add: new_OptionContract_def premium_check_def py_int_def)

subsection \<open>Net positions\<close>

text \<open>One turn of the loop adds the contract's exposure to the bucket of its kind only.\<close>

lemma lookup_step:
  "lookup (net_positions_step lot m c) K
     = lookup m K + (if option c = K then quantity c * Side_value (side c) * lot else 0)"
  by (simp add: net_positions_step_def lookup_def)

text \<open>The loop from any starting counter: induction on the list, the counter generalised.\<close>

lemma lookup_foldl_step:
  "lookup (foldl (net_positions_step lot) m cs) K
     = lookup m K
       + sum_list (map (\<lambda>c. quantity c * Side_value (side c) * lot)
                       (filter (\<lambda>c. option c = K) cs))"
  by (induction cs arbitrary: m) (simp_all add: lookup_step)

lemma lookup_net_positions:
  "lookup (net_positions b) K
     = sum_list (map (\<lambda>c. quantity c * Side_value (side c) * lot_size b)
                     (filter (\<lambda>c. option c = K) (options b)))"
  by (simp add: net_positions_def lookup_foldl_step) (simp add: lookup_def)

text \<open>
  Claim C5: looked up at a kind \<open>K\<close>, \<open>net_positions\<close> is the sum over the contracts
  of kind \<open>K\<close> of \<open>quantity * side * lot_size\<close>, which is the sum of \<open>quantity * side\<close>
  over them times the lot size; a kind without contracts looks up as 0.
\<close>

theorem net_positions_lookup:
  "lookup (net_positions b) K
     = sum_list (map (\<lambda>c. quantity c * Side_value (side c) * lot_size b)
                     (filter (\<lambda>c. option c = K) (options b)))
 \<and> lookup (net_positions b) K
     = sum_list (map (\<lambda>c. quantity c * Side_value (side c))
                     (filter (\<lambda>c. option c = K) (options b))) * lot_size b
 \<and> ((\<forall>c \<in> set (options b). option c \<noteq> K) \<longrightarrow> lookup (net_positions b) K = 0)"
proof -
  have "filter (\<lambda>c. option c = K) (options b) = []"
    if "\<forall>c \<in> set (options b). option c \<noteq> K"
    using that by (simp add: filter_empty_conv)
  then show ?thesis
    by (simp add: lookup_net_positions sum_list_mult_const)
qed

theorem net_positions_lookup_witness:
  "lookup (net_positions \<lparr>spot = 0, lot_size = 25, priv_options =
       [\<lparr>strike = 110, option = CALL, side = SELL, premium = 3, quantity = 2\<rparr>,
        \<lparr>strike = 90, option = PUT, side = BUY, premium = 3, quantity = 1\<rparr>,
        \<lparr>strike = 120, option = CALL, side = BUY, premium = 1, quantity = 5\<rparr>]\<rparr>) CALL = 75
 \<and> lookup (net_positions \<lparr>spot = 0, lot_size = 25, priv_options =
       [\<lparr>strike = 110, option = CALL, side = SELL, premium = 3, quantity = 2\<rparr>,
        \<lparr>strike = 90, option = PUT, side = BUY, premium = 3, quantity = 1\<rparr>,
        \<lparr>strike = 120, option = CALL, side = BUY, premium = 1, quantity = 5\<rparr>]\<rparr>) FUTURE = 0"
  using net_positions_lookup [of "\<lparr>spot = 0, lot_size = 25, priv_options =
       [\<lparr>strike = 110, option = CALL, side = SELL, premium = 3, quantity = 2\<rparr>,
        \<lparr>strike = 90, option = PUT, side = BUY, premium = 3, quantity = 1\<rparr>,
        \<lparr>strike = 120, option = CALL, side = BUY, premium = 1, quantity = 5\<rparr>]\<rparr>" CALL]
    net_positions_lookup [of "\<lparr>spot = 0, lot_size = 25, priv_options =
       [\<lparr>strike = 110, option = CALL, side = SELL, premium = 3, quantity = 2\<rparr>,
        \<lparr>strike = 90, option = PUT, side = BUY, premium = 3, quantity = 1\<rparr>,
        \<lparr>strike = 120, option = CALL, side = BUY, premium = 1, quantity = 5\<rparr>]\<rparr>" FUTURE]
  by (simp add: options_def)

text \<open>
  Claim C6: \<open>has_naked_positions\<close> holds exactly when the net CALL exposure or the net
  PUT exposure is negative. Futures and holdings do not count: dropping them from the
  book leaves the answer as it is. A long call and a short call of the same quantity
  net to a CALL exposure of 0 and are not naked.
\<close>

theorem has_naked_positions_iff:
  "has_naked_positions b
     = (lookup (net_positions b) CALL < 0 \<or> lookup (net_positions b) PUT < 0)
 \<and> has_naked_positions b
     = has_naked_positions
         (b\<lparr>priv_options := filter (\<lambda>c. option c = CALL \<or> option c = PUT) (priv_options b)\<rparr>)
 \<and> lookup (net_positions \<lparr>spot = s, lot_size = l, priv_options =
       [\<lparr>strike = k1, option = CALL, side = BUY, premium = p1, quantity = q\<rparr>,
        \<lparr>strike = k2, option = CALL, side = SELL, premium = p2, quantity = q\<rparr>]\<rparr>) CALL = 0
 \<and> \<not> has_naked_positions \<lparr>spot = s, lot_size = l, priv_options =
       [\<lparr>strike = k1, option = CALL, side = BUY, premium = p1, quantity = q\<rparr>,
        \<lparr>strike = k2, option = CALL, side = SELL, premium = p2, quantity = q\<rparr>]\<rparr>"
proof -
  have a: "has_naked_positions b
     = (lookup (net_positions b) CALL < 0 \<or> lookup (net_positions b) PUT < 0)" for b
    by (simp add: has_naked_positions_def Let_def)
  have f: "filter (\<lambda>c. (option c = CALL \<or> option c = PUT) \<and> option c = K) cs
             = filter (\<lambda>c. option c = K) cs" if "K = CALL \<or> K = PUT"
    for K and cs :: "OptionContract list"
    using that by (intro filter_cong) auto
  have b: "has_naked_positions b
     = has_naked_positions
         (b\<lparr>priv_options := filter (\<lambda>c. option c = CALL \<or> option c = PUT) (priv_options b)\<rparr>)"
    by (simp add: a lookup_net_positions options_def f)
  show ?thesis
    using b by (simp add: a lookup_net_positions options_def)
qed

theorem has_naked_positions_iff_witness:
  "has_naked_positions \<lparr>spot = 0, lot_size = 1, priv_options =
       [\<lparr>strike = 110, option = CALL, side = SELL, premium = 3, quantity = 1\<rparr>,
        \<lparr>strike = 90, option = PUT, side = SELL, premium = 3, quantity = 1\<rparr>]\<rparr>
 \<and> \<not> has_naked_positions \<lparr>spot = 0, lot_size = 1, priv_options =
       [\<lparr>strike = 100, option = FUTURE, side = SELL, premium = 0, quantity = 4\<rparr>,
        \<lparr>strike = 100, option = HOLDING, side = SELL, premium = 0, quantity = 2\<rparr>]\<rparr>
 \<and> \<not> has_naked_positions \<lparr>spot = 0, lot_size = 1, priv_options =
       [\<lparr>strike = 100, option = CALL, side = BUY, premium = 5, quantity = 3\<rparr>,
        \<lparr>strike = 120, option = CALL, side = SELL, premium = 2, quantity = 3\<rparr>]\<rparr>"
  using has_naked_positions_iff [of "\<lparr>spot = 0, lot_size = 1, priv_options =
       [\<lparr>strike = 110, option = CALL, side = SELL, premium = 3, quantity = 1\<rparr>,
        \<lparr>strike = 90, option = PUT, side = SELL, premium = 3, quantity = 1\<rparr>]\<rparr>"]
    has_naked_positions_iff [of "\<lparr>spot = 0, lot_size = 1, priv_options =
       [\<lparr>strike = 100, option = FUTURE, side = SELL, premium = 0, quantity = 4\<rparr>,
        \<lparr>strike = 100, option = HOLDING, side = SELL, premium = 0, quantity = 2\<rparr>]\<rparr>"]
    has_naked_positions_iff [of _ 0 1 100 5 3 120 2]
  by (simp add: net_positions_def options_def net_positions_step_def lookup_def)




subsection \<open>Rounded addition\<close>

text \<open>The equations that evaluate a rounded sum of concrete numbers.\<close>

lemmas double_eval =
  py_sum_def fadd_def round_double_def ulp_def exponent_def round_even_def compute_bitlen Let_def

text \<open>
  Two known values: the double nearest to 0.1, and \<open>0.1 + 0.2\<close> in doubles, which is
  0.30000000000000004.
\<close>

lemma round_double_tenth: "round_double (1 / 10) = 3602879701896397 / 36028797018963968"
  by (simp add: double_eval)

lemma fadd_tenth_two_tenths:
  "fadd (round_double (1 / 10)) (round_double (2 / 10)) = 1351079888211149 / 4503599627370496"
  by (simp add: double_eval)

text \<open>
  \<open>exponent\<close> is the binary exponent, above 1 and below it, and \<open>round_double\<close> moves
  a number by at most half the spacing of the doubles around it.
\<close>

lemma exponent_bounds_large:
  assumes "1 \<le> \<bar>x\<bar>"
  shows "2 ^ nat (exponent x) \<le> \<bar>x\<bar>" and "\<bar>x\<bar> < 2 ^ nat (exponent x + 1)"
proof -
  let ?m = "\<lfloor>\<bar>x\<bar>\<rfloor>"
  have pos: "0 < ?m" using assms by simp
  have e: "exponent x = bitlen ?m - 1"
    using assms by (simp add: exponent_def)
  have ge: "1 \<le> bitlen ?m"
    using pos by (simp add: bitlen_alt_def)
  note bb = bitlen_bounds [OF pos]
  have "real_of_int (2 ^ nat (bitlen ?m - 1)) \<le> real_of_int ?m"
    using bb by (simp only: of_int_le_iff)
  also have "\<dots> \<le> \<bar>x\<bar>" by simp
  finally show "2 ^ nat (exponent x) \<le> \<bar>x\<bar>" by (simp add: e)
  have "?m + 1 \<le> 2 ^ nat (bitlen ?m)" using bb by simp
  then have "real_of_int (?m + 1) \<le> real_of_int (2 ^ nat (bitlen ?m))"
    by (simp only: of_int_le_iff)
  moreover have "\<bar>x\<bar> < real_of_int (?m + 1)" by simp
  ultimately have "\<bar>x\<bar> < real_of_int (2 ^ nat (bitlen ?m))" by linarith
  then show "\<bar>x\<bar> < 2 ^ nat (exponent x + 1)" by (simp add: e)
qed

lemma exponent_bounds_small:
  assumes "x \<noteq> 0" and "\<bar>x\<bar> < 1"
  shows "1 / 2 ^ nat (- exponent x) \<le> \<bar>x\<bar>" and "\<bar>x\<bar> < 2 / 2 ^ nat (- exponent x)"
proof -
  define y where "y = 1 / \<bar>x\<bar>"
  let ?c = "\<lceil>y\<rceil> - 1"
  have xpos: "0 < \<bar>x\<bar>" using assms(1) by simp
  have y1: "1 < y" using assms xpos by (simp add: y_def)
  have ypos: "0 < y" using y1 by simp
  have xy: "\<bar>x\<bar> = 1 / y" using xpos by (simp add: y_def)
  have "2 \<le> \<lceil>y\<rceil>" using y1 by (simp add: le_ceiling_iff)
  then have pos: "0 < ?c" by simp
  have e: "exponent x = - bitlen ?c"
    using assms by (simp add: exponent_def y_def)
  have ge: "1 \<le> bitlen ?c"
    using pos by (simp add: bitlen_alt_def)
  note bb = bitlen_bounds [OF pos]
  have "?c + 1 \<le> 2 ^ nat (bitlen ?c)" using bb by simp
  then have "real_of_int (?c + 1) \<le> real_of_int (2 ^ nat (bitlen ?c))"
    by (simp only: of_int_le_iff)
  then have "real_of_int \<lceil>y\<rceil> \<le> 2 ^ nat (bitlen ?c)" by simp
  moreover have "y \<le> real_of_int \<lceil>y\<rceil>" by (rule le_of_int_ceiling)
  ultimately have up: "y \<le> 2 ^ nat (bitlen ?c)" by linarith
  have "1 / 2 ^ nat (bitlen ?c) \<le> 1 / y"
    using up ypos by (simp add: frac_le)
  then show "1 / 2 ^ nat (- exponent x) \<le> \<bar>x\<bar>" by (simp add: e xy)
  have "real_of_int (2 ^ nat (bitlen ?c - 1)) \<le> real_of_int ?c"
    using bb by (simp only: of_int_le_iff)
  moreover have "real_of_int ?c < y" by linarith
  ultimately have lo: "2 ^ nat (bitlen ?c - 1) < y" by simp
  have "(2::real) ^ nat (bitlen ?c) = 2 * 2 ^ nat (bitlen ?c - 1)"
    using ge by (metis Suc_nat_eq_nat_zadd1 add.commute diff_add_cancel diff_ge_0_iff_ge power_Suc)
  then have "(2::real) ^ nat (bitlen ?c) < 2 * y" using lo by simp
  then have "1 / y < 2 / 2 ^ nat (bitlen ?c)"
    using ypos by (simp add: field_simps)
  then show "\<bar>x\<bar> < 2 / 2 ^ nat (- exponent x)" by (simp add: e xy)
qed

lemma round_even_near: "\<bar>of_int (round_even r) - r\<bar> \<le> 1 / 2"
  unfolding round_even_def Let_def by (auto simp: abs_if) linarith+

lemma ulp_pos: "0 < ulp x"
  by (simp add: ulp_def Let_def)

lemma round_double_near: "\<bar>round_double x - x\<bar> \<le> ulp x / 2"
proof (cases "x = 0")
  case True
  then show ?thesis using ulp_pos [of x] by (simp add: round_double_def)
next
  case False
  have "\<bar>of_int (round_even (x / ulp x)) - x / ulp x\<bar> \<le> 1 / 2"
    by (rule round_even_near)
  then have "\<bar>of_int (round_even (x / ulp x)) - x / ulp x\<bar> * ulp x \<le> 1 / 2 * ulp x"
    using ulp_pos [of x] by (simp only: mult_le_cancel_right_pos)
  moreover have "(of_int (round_even (x / ulp x)) - x / ulp x) * ulp x
      = of_int (round_even (x / ulp x)) * ulp x - x"
    using ulp_pos [of x] by (simp add: left_diff_distrib)
  then have "\<bar>of_int (round_even (x / ulp x)) * ulp x - x\<bar>
      = \<bar>of_int (round_even (x / ulp x)) - x / ulp x\<bar> * \<bar>ulp x\<bar>"
    by (metis abs_mult)
  moreover have "\<bar>ulp x\<bar> = ulp x"
    using ulp_pos [of x] by simp
  ultimately show ?thesis using False by (simp add: round_double_def)
qed






subsection \<open>Payoff\<close>


text \<open>With a nonzero spot argument the sum is taken at that spot.\<close>

lemma payoff_at_nonzero_spot:
  "s \<noteq> 0 \<Longrightarrow> options b \<noteq> [] \<Longrightarrow>
   payoff b (Some s) = py_sum (map (\<lambda>c. net_value c s * of_int (lot_size b)) (options b))"
  by (simp add: payoff_def)

text \<open>Without a spot argument the sum is taken at the stored spot.\<close>

lemma payoff_without_spot:
  "options b \<noteq> [] \<Longrightarrow>
   payoff b None
     = py_sum (map (\<lambda>c. net_value c (spot b) * of_int (lot_size b)) (options b))"
  by (simp add: payoff_def)

text \<open>
  Claim C1 says that \<open>payoff(s)\<close> is the sum over the contracts of
  \<open>net_value(s) * lot_size\<close> for every spot \<open>s\<close>. At \<open>s = 0\<close> the code takes the
  argument for missing and evaluates at the stored spot: a book with stored spot 100,
  lot size 1 and one long future entered at 50 gives \<open>payoff(0) = 50\<close>, the value at
  100, where the sum at price 0 is -50.
\<close>

theorem payoff_spot_zero_evaluated_at_default:
  "payoff \<lparr>spot = 100, lot_size = 1, priv_options =
       [\<lparr>strike = 50, option = FUTURE, side = BUY, premium = 0, quantity = 1\<rparr>]\<rparr> (Some 0)
     = 50
 \<and> py_sum (map (\<lambda>c. net_value c 0 * of_int 1)
       [\<lparr>strike = 50, option = FUTURE, side = BUY, premium = 0, quantity = 1\<rparr>])
     = - 50"
  by (simp add: payoff_def options_def net_value_def value_c_def double_eval)

text \<open>
  Claim C9: on a book without contracts \<open>payoff\<close> is 0 at any spot argument, and
  \<open>clear\<close> leaves a book without contracts (spot and lot size as they were), so that
  \<open>payoff\<close> after \<open>clear\<close> is 0 whatever the book held.
\<close>

theorem payoff_empty_and_clear:
  "(options b = [] \<longrightarrow> payoff b s = 0)
 \<and> options (clear b) = []
 \<and> payoff (clear b) s = 0
 \<and> spot (clear b) = spot b \<and> lot_size (clear b) = lot_size b"
  by (simp add: payoff_def clear_def options_def)

theorem payoff_empty_and_clear_witness:
  "payoff (new_OptionPayoff (Some 100) (Some 5)) (Some 130) = 0
 \<and> payoff (new_OptionPayoff None None) None = 0
 \<and> payoff (clear \<lparr>spot = 100, lot_size = 1, priv_options =
       [\<lparr>strike = 100, option = CALL, side = BUY, premium = 5, quantity = 1\<rparr>]\<rparr>) None = 0
 \<and> payoff \<lparr>spot = 100, lot_size = 1, priv_options =
       [\<lparr>strike = 100, option = CALL, side = BUY, premium = 5, quantity = 1\<rparr>]\<rparr> None = - 5"
  using payoff_empty_and_clear [of "new_OptionPayoff (Some 100) (Some 5)" "Some 130"]
    payoff_empty_and_clear [of "new_OptionPayoff None None" None]
    payoff_empty_and_clear [of "\<lparr>spot = 100, lot_size = 1, priv_options =
       [\<lparr>strike = 100, option = CALL, side = BUY, premium = 5, quantity = 1\<rparr>]\<rparr>" None]
  by (simp add: new_OptionPayoff_def options_def payoff_def net_value_def value_c_def
      double_eval)

text \<open>
  Claim C10: a spot argument of 0 is the same as no argument. \<open>payoff(0)\<close> equals
  \<open>payoff()\<close>, which is the sum taken at the stored spot (or 0 on a book without
  contracts), and so equals \<open>payoff\<close> at the stored spot when that is not 0.
\<close>

theorem payoff_zero_is_no_argument:
  "payoff b (Some 0) = payoff b None
 \<and> payoff b (Some 0) =
     (if options b = [] then 0
      else py_sum (map (\<lambda>c. net_value c (spot b) * of_int (lot_size b)) (options b)))
 \<and> (spot b \<noteq> 0 \<longrightarrow> payoff b (Some 0) = payoff b (Some (spot b)))"
  by (simp add: payoff_def)

theorem payoff_zero_is_no_argument_witness:
  "payoff \<lparr>spot = 130, lot_size = 1, priv_options =
       [\<lparr>strike = 100, option = CALL, side = BUY, premium = 5, quantity = 1\<rparr>]\<rparr> (Some 0) = 25
 \<and> payoff \<lparr>spot = 130, lot_size = 1, priv_options =
       [\<lparr>strike = 100, option = CALL, side = BUY, premium = 5, quantity = 1\<rparr>]\<rparr> None = 25
 \<and> payoff \<lparr>spot = 130, lot_size = 1, priv_options =
       [\<lparr>strike = 100, option = CALL, side = BUY, premium = 5, quantity = 1\<rparr>]\<rparr> (Some 130) = 25
 \<and> net_value \<lparr>strike = 100, option = CALL, side = BUY, premium = 5, quantity = 1\<rparr> 0
      * of_int 1 = - 5"
  using payoff_zero_is_no_argument [of "\<lparr>spot = 130, lot_size = 1, priv_options =
       [\<lparr>strike = 100, option = CALL, side = BUY, premium = 5, quantity = 1\<rparr>]\<rparr>"]
  by (simp add: options_def net_value_def value_c_def double_eval)

subsection \<open>Simulation\<close>

text \<open>
  Claim C7: \<open>simulate\<close> is one independent \<open>payoff\<close> per price. It agrees with the
  repeated calls of \<open>simulate_spec\<close>, returns as many results as there are prices, the
  \<open>i\<close>-th being \<open>payoff\<close> at the \<open>i\<close>-th price, returns the empty list for no prices,
  and the results for a list of prices do not depend on what comes before or after it.
\<close>

theorem simulate_elementwise:
  "simulate b xs = simulate_spec b xs
 \<and> length (simulate b xs) = length xs
 \<and> (\<forall>i < length xs. simulate b xs ! i = payoff b (Some (xs ! i)))
 \<and> simulate b [] = []
 \<and> simulate b (xs @ ys) = simulate b xs @ simulate b ys"
proof -
  have "simulate b xs = simulate_spec b xs"
    by (induction xs) (simp_all add: simulate_def)
  moreover have "length (simulate b xs) = length xs"
    by (simp add: simulate_def)
  moreover have "\<forall>i < length xs. simulate b xs ! i = payoff b (Some (xs ! i))"
    by (simp add: simulate_def)
  moreover have "simulate b [] = []"
    by (simp add: simulate_def)
  moreover have "simulate b (xs @ ys) = simulate b xs @ simulate b ys"
    by (simp add: simulate_def)
  ultimately show ?thesis by blast
qed

theorem simulate_elementwise_witness:
  "length (simulate \<lparr>spot = 100, lot_size = 1, priv_options =
       [\<lparr>strike = 100, option = CALL, side = BUY, premium = 5, quantity = 1\<rparr>,
        \<lparr>strike = 100, option = PUT, side = BUY, premium = 4, quantity = 1\<rparr>]\<rparr> [130, 70, 100]) = 3
 \<and> simulate \<lparr>spot = 100, lot_size = 1, priv_options =
       [\<lparr>strike = 100, option = CALL, side = BUY, premium = 5, quantity = 1\<rparr>,
        \<lparr>strike = 100, option = PUT, side = BUY, premium = 4, quantity = 1\<rparr>]\<rparr> [130, 70, 100] ! 2
     = - 9"
proof -
  let ?b = "\<lparr>spot = 100, lot_size = 1, priv_options =
       [\<lparr>strike = 100, option = CALL, side = BUY, premium = 5, quantity = 1\<rparr>,
        \<lparr>strike = 100, option = PUT, side = BUY, premium = 4, quantity = 1\<rparr>]\<rparr>"
  let ?xs = "[130, 70, 100] :: real list"
  note t = simulate_elementwise [of ?b ?xs "[]"]
  from t have len: "length (simulate ?b ?xs) = length ?xs"
    by (elim conjE)
  from t have "\<forall>i < length ?xs. simulate ?b ?xs ! i = payoff ?b (Some (?xs ! i))"
    by (elim conjE)
  then have "simulate ?b ?xs ! 2 = payoff ?b (Some (?xs ! 2))"
    by simp
  also have "\<dots> = - 9"
    by (simp add: payoff_def options_def net_value_def value_c_def double_eval)
  finally show ?thesis using len by simp
qed

subsection \<open>The order of the contracts\<close>




end
